theory Spec2Isabelle
  imports Complex_Main
begin

section \<open>The CAPM investor classifier\<close>

text \<open>
  A shallow embedding of the classification engine of \<^verbatim>\<open>back.py\<close> (the FastAPI service)
  and of its standalone copy in \<^verbatim>\<open>app.py\<close> (the Streamlit script).

  Numbers. Python's \<^verbatim>\<open>int\<close> is \<^typ>\<open>int\<close>. Python's \<^verbatim>\<open>float\<close> is modelled by the
  exact rationals \<^typ>\<open>rat\<close>: every threshold, weight and sub-score of the program is a
  short decimal, and the composite score is shown below to be a multiple of 0.01, so the
  exact value is the decimal that the binary floating-point computation denotes after
  \<^verbatim>\<open>round(_, 2)\<close>. Rounding error below that resolution, NaN and infinities are outside
  the model.

  Optional fields. Every field of the request is \<^verbatim>\<open>Optional[...]\<close>, so it is an
  \<open>option\<close> here; \<open>None\<close> is an explicit null, and an absent field takes the default
  of the class declaration (see \<open>InvestorInput_default\<close>).
\<close>

subsection \<open>Input schema\<close>

record Insurance =
  has_health :: "bool option"
  has_life :: "bool option"

record InvestorInput =
  age :: "int option"
  monthly_income :: "int option"
  monthly_emi :: "int option"
  emergency_fund_months :: "rat option"
  emergency_fund_amount :: "int option"
  monthly_expenses :: "int option"
  insurance :: "Insurance option"
  insurance_amount :: "int option"
  dependants :: "int option"
  risk_attitude :: "int option"
  investment_knowledge :: "int option"
  drawdown_reaction :: "string option"
  risk_tolerance :: "string option"
  time_horizon :: "int option"
  return_expectation :: "rat option"

text \<open>The record built from an empty request: the defaults of the class declaration.\<close>

definition InvestorInput_default :: InvestorInput where
  "InvestorInput_default =
     \<lparr>age = Some 30, monthly_income = Some 0, monthly_emi = Some 0,
      emergency_fund_months = None, emergency_fund_amount = None, monthly_expenses = None,
      insurance = None, insurance_amount = None, dependants = None,
      risk_attitude = None, investment_knowledge = None, drawdown_reaction = None,
      risk_tolerance = None, time_horizon = None, return_expectation = None\<rparr>"

subsection \<open>Python truthiness and \<^verbatim>\<open>x or d\<close>\<close>

text \<open>
  \<^verbatim>\<open>x or d\<close> is \<^verbatim>\<open>d\<close> when \<^verbatim>\<open>x\<close> is falsy (\<^verbatim>\<open>None\<close>, the number zero, the empty
  string) and \<^verbatim>\<open>x\<close> otherwise; \<^verbatim>\<open>if x:\<close> tests the same.
\<close>

fun truthy_num :: "('a::zero) option \<Rightarrow> bool" where
  "truthy_num None = False"
| "truthy_num (Some v) = (v \<noteq> 0)"

fun truthy_str :: "string option \<Rightarrow> bool" where
  "truthy_str None = False"
| "truthy_str (Some s) = (s \<noteq> [])"

fun truthy_bool :: "bool option \<Rightarrow> bool" where
  "truthy_bool None = False"
| "truthy_bool (Some b) = b"

fun or_default :: "('a::zero) option \<Rightarrow> 'a \<Rightarrow> 'a" where
  "or_default None d = d"
| "or_default (Some v) d = (if v \<noteq> 0 then v else d)"

subsection \<open>Weights\<close>

definition WEIGHTS :: "(string \<times> rat) list" where
  "WEIGHTS =
     [(''age'', 25 / 100),
      (''financial_stability'', 30 / 100),
      (''risk_tolerance'', 20 / 100),
      (''time_horizon'', 15 / 100),
      (''return_expectation'', 10 / 100)]"

text \<open>
  \<^verbatim>\<open>WEIGHTS[k]\<close>. The program subscripts the table with the five literal keys only, all
  present, so the \<^verbatim>\<open>KeyError\<close> of a missing key is unreachable; the model returns 0 there.
\<close>

definition weight_of :: "string \<Rightarrow> rat" where
  "weight_of k = (case map_of WEIGHTS k of Some w \<Rightarrow> w | None \<Rightarrow> 0)"

subsection \<open>Helper functions\<close>

definition get_age_score :: "int \<Rightarrow> rat" where
  "get_age_score a =
     (if a \<le> 25 then 90 else if a \<le> 35 then 75 else if a \<le> 45 then 60
      else if a \<le> 55 then 40 else if a \<le> 65 then 20 else 10)"

definition get_income_score_from_threshold :: "int \<Rightarrow> rat" where
  "get_income_score_from_threshold income =
     (if income < 20000 then 30 else if income < 50000 then 40
      else if income < 100000 then 50 else if income < 500000 then 60
      else if income < 1000000 then 70 else if income < 1500000 then 80
      else if income < 2400000 then 85 else if income < 5000000 then 90
      else if income < 7500000 then 95 else if income < 10000000 then 97 else 100)"

definition get_emergency_score_from_ratio :: "rat \<Rightarrow> rat" where
  "get_emergency_score_from_ratio ratio =
     (if ratio > 14 / 10 then 90 else if ratio > 1 then 70
      else if ratio > 75 / 100 then 60 else if ratio > 5 / 10 then 50 else 30)"

definition get_debt_score_from_ratio :: "rat \<Rightarrow> rat" where
  "get_debt_score_from_ratio r =
     (if r < 5 then 90 else if r < 15 then 75 else if r < 25 then 60
      else if r < 50 then 45 else 30)"

text \<open>\<^verbatim>\<open>d.get(k, 60.0)\<close> on the three score dictionaries.\<close>

definition get_or_60 :: "('k \<rightharpoonup> rat) \<Rightarrow> 'k \<Rightarrow> rat" where
  "get_or_60 d k = (case d k of Some v \<Rightarrow> v | None \<Rightarrow> 60)"

definition risk_tolerance_mapping :: "string \<rightharpoonup> rat" where
  "risk_tolerance_mapping =
     [''conservative'' \<mapsto> 30, ''moderate'' \<mapsto> 60, ''aggressive'' \<mapsto> 90]"

definition get_risk_tolerance_score :: "string \<Rightarrow> rat" where
  "get_risk_tolerance_score rt = get_or_60 risk_tolerance_mapping rt"

definition get_time_horizon_score :: "int \<Rightarrow> rat" where
  "get_time_horizon_score t = (if t \<le> 3 then 35 else if t \<le> 7 then 65 else 90)"

definition get_return_expectation_score :: "rat \<Rightarrow> rat" where
  "get_return_expectation_score r =
     (if r < 8 then 35 else if r < 12 then 60 else if r < 15 then 75 else 90)"

fun get_insurance_score :: "int option \<Rightarrow> rat option" where
  "get_insurance_score None = None"
| "get_insurance_score (Some a) =
     (if a = 0 then Some 30 else if a < 500000 then Some 40
      else if a < 2500000 then Some 60 else if a < 10000000 then Some 75
      else if a < 50000000 then Some 90 else Some 100)"

fun get_dependants_score :: "int option \<Rightarrow> rat option" where
  "get_dependants_score None = None"
| "get_dependants_score (Some d) =
     (if d = 0 then Some 90 else if d \<le> 2 then Some 75 else if d \<le> 5 then Some 60
      else if d \<le> 8 then Some 45 else Some 30)"

subsection \<open>Rounding to two decimals\<close>

text \<open>
  \<^verbatim>\<open>round(x, 2)\<close>: the nearest multiple of 0.01, a tie going to the even one. (No value
  the engine rounds is a tie, see \<open>round2_id\<close> and its uses.)
\<close>

definition round_half_even :: "rat \<Rightarrow> int" where
  "round_half_even x =
     (let f = \<lfloor>x\<rfloor>; d = x - of_int f
      in if d < 1 / 2 then f else if 1 / 2 < d then f + 1
         else if even f then f else f + 1)"

definition round2 :: "rat \<Rightarrow> rat" where
  "round2 x = of_int (round_half_even (x * 100)) / 100"

subsection \<open>Classification (\<^verbatim>\<open>back.py\<close>)\<close>

text \<open>
  Each definition below is one local variable of \<^verbatim>\<open>classify_investor\<close>, as a function
  of the request, in the order the source computes them.
\<close>

definition age_sub :: "InvestorInput \<Rightarrow> rat" where
  "age_sub p = get_age_score (or_default (age p) 30)"

definition emi_ratio :: "InvestorInput \<Rightarrow> rat" where
  "emi_ratio p =
     (let income = or_default (monthly_income p) 1;
          emi = or_default (monthly_emi p) 0
      in if income \<noteq> 0 then of_int emi / of_int income * 100 else 100)"

definition debt_score :: "InvestorInput \<Rightarrow> rat" where
  "debt_score p = get_debt_score_from_ratio (emi_ratio p)"

definition income_score :: "InvestorInput \<Rightarrow> rat" where
  "income_score p = get_income_score_from_threshold (or_default (monthly_income p) 1)"

definition emergency_ratio :: "InvestorInput \<Rightarrow> rat" where
  "emergency_ratio p =
     (let expenses = or_default (monthly_expenses p) 0
      in case emergency_fund_amount p of
           Some amount \<Rightarrow>
             if expenses > 0 then of_int amount / of_int (6 * expenses)
             else (case emergency_fund_months p of Some m \<Rightarrow> m / 6 | None \<Rightarrow> 0)
         | None \<Rightarrow> (case emergency_fund_months p of Some m \<Rightarrow> m / 6 | None \<Rightarrow> 0))"

definition emergency_score :: "InvestorInput \<Rightarrow> rat" where
  "emergency_score p = get_emergency_score_from_ratio (emergency_ratio p)"

definition financial_sub :: "InvestorInput \<Rightarrow> rat" where
  "financial_sub p = (income_score p + emergency_score p + debt_score p) / 3"

definition likert :: "int \<rightharpoonup> rat" where
  "likert = [1 \<mapsto> 30, 2 \<mapsto> 45, 3 \<mapsto> 60, 4 \<mapsto> 75, 5 \<mapsto> 90]"

definition dd_map :: "string \<rightharpoonup> rat" where
  "dd_map = [''sell'' \<mapsto> 30, ''wait'' \<mapsto> 60, ''buy_more'' \<mapsto> 90]"

text \<open>\<^verbatim>\<open>if v: risk_subs.append(d.get(v, 60.0))\<close>\<close>

fun append_if_truthy_int :: "int option \<Rightarrow> rat list \<Rightarrow> rat list" where
  "append_if_truthy_int None xs = xs"
| "append_if_truthy_int (Some v) xs = (if v \<noteq> 0 then xs @ [get_or_60 likert v] else xs)"

fun append_if_truthy_str :: "string option \<Rightarrow> rat list \<Rightarrow> rat list" where
  "append_if_truthy_str None xs = xs"
| "append_if_truthy_str (Some s) xs = (if s \<noteq> [] then xs @ [get_or_60 dd_map s] else xs)"

definition risk_subs :: "InvestorInput \<Rightarrow> rat list" where
  "risk_subs p =
     append_if_truthy_str (drawdown_reaction p)
       (append_if_truthy_int (investment_knowledge p)
          (append_if_truthy_int (risk_attitude p) []))"

definition risk_tolerance_sub :: "InvestorInput \<Rightarrow> rat" where
  "risk_tolerance_sub p =
     (case risk_tolerance p of
        Some rt \<Rightarrow>
          if rt \<noteq> [] then get_risk_tolerance_score rt
          else if risk_subs p \<noteq> [] then sum_list (risk_subs p) / of_nat (length (risk_subs p))
          else 60
      | None \<Rightarrow>
          if risk_subs p \<noteq> [] then sum_list (risk_subs p) / of_nat (length (risk_subs p))
          else 60)"

definition time_sub :: "InvestorInput \<Rightarrow> rat" where
  "time_sub p = get_time_horizon_score (or_default (time_horizon p) 5)"

definition return_sub :: "InvestorInput \<Rightarrow> rat" where
  "return_sub p = get_return_expectation_score (or_default (return_expectation p) 10)"

text \<open>The running sum \<^verbatim>\<open>score\<close> before \<^verbatim>\<open># Normalize & Profile\<close>.\<close>

definition raw_score :: "InvestorInput \<Rightarrow> rat" where
  "raw_score p =
     0 + age_sub p * weight_of ''age''
       + financial_sub p * weight_of ''financial_stability''
       + risk_tolerance_sub p * weight_of ''risk_tolerance''
       + time_sub p * weight_of ''time_horizon''
       + return_sub p * weight_of ''return_expectation''"

definition final_score :: "InvestorInput \<Rightarrow> rat" where
  "final_score p = round2 (min 100 (max 0 (raw_score p)))"

definition profile_of :: "rat \<Rightarrow> string" where
  "profile_of s =
     (if s \<le> 25 then ''Ultra-Conservative'' else if s \<le> 40 then ''Conservative''
      else if s \<le> 60 then ''Moderate'' else if s \<le> 75 then ''Moderate-Aggressive''
      else if s \<le> 90 then ''Aggressive'' else ''Ultra-Aggressive'')"

definition recommendation_of :: "rat \<Rightarrow> string" where
  "recommendation_of s =
     (if s \<ge> 70 then ''invest in equity > debt > gold''
      else if s \<ge> 40 then ''invest in debt > equity > gold''
      else ''invest in debt > gold > equity'')"

record Factor =
  name :: string
  subscore :: rat
  weight :: "rat option"
  weighted :: "rat option"

definition weighted_factors :: "InvestorInput \<Rightarrow> Factor list" where
  "weighted_factors p =
     [\<lparr>name = ''age'', subscore = age_sub p,
       weight = Some (weight_of ''age''),
       weighted = Some (round2 (age_sub p * weight_of ''age''))\<rparr>,
      \<lparr>name = ''financial_stability'', subscore = round2 (financial_sub p),
       weight = Some (weight_of ''financial_stability''),
       weighted = Some (round2 (financial_sub p * weight_of ''financial_stability''))\<rparr>,
      \<lparr>name = ''risk_tolerance'', subscore = round2 (risk_tolerance_sub p),
       weight = Some (weight_of ''risk_tolerance''),
       weighted = Some (round2 (risk_tolerance_sub p * weight_of ''risk_tolerance''))\<rparr>,
      \<lparr>name = ''time_horizon'', subscore = time_sub p,
       weight = Some (weight_of ''time_horizon''),
       weighted = Some (round2 (time_sub p * weight_of ''time_horizon''))\<rparr>,
      \<lparr>name = ''return_expectation'', subscore = return_sub p,
       weight = Some (weight_of ''return_expectation''),
       weighted = Some (round2 (return_sub p * weight_of ''return_expectation''))\<rparr>]"

text \<open>
  \<^verbatim>\<open>insurance_sub\<close> after the fallback on the flags. \<^verbatim>\<open>data.insurance\<close> is a model
  object, which is truthy whenever it is not \<^verbatim>\<open>None\<close>.
\<close>

definition insurance_sub :: "InvestorInput \<Rightarrow> rat option" where
  "insurance_sub p =
     (case get_insurance_score (insurance_amount p) of
        Some s \<Rightarrow> Some s
      | None \<Rightarrow>
          (case insurance p of
             None \<Rightarrow> None
           | Some ins \<Rightarrow>
               if truthy_bool (has_health ins) \<and> truthy_bool (has_life ins) then Some 80
               else if truthy_bool (has_health ins) \<or> truthy_bool (has_life ins) then Some 50
               else Some 30))"

text \<open>\<^verbatim>\<open>if sub: factors.append({"name": n, "subscore": sub, "weight": None, "weighted": None})\<close>\<close>

definition optional_factor :: "string \<Rightarrow> rat option \<Rightarrow> Factor list" where
  "optional_factor n sub =
     (if truthy_num sub
      then (case sub of Some s \<Rightarrow> [\<lparr>name = n, subscore = s, weight = None, weighted = None\<rparr>]
                      | None \<Rightarrow> [])
      else [])"

record 'f Result =
  score :: rat
  profile :: string
  recommendation :: string
  factors :: "'f list"

definition classify_investor :: "InvestorInput \<Rightarrow> Factor Result" where
  "classify_investor p =
     \<lparr>score = final_score p,
      profile = profile_of (final_score p),
      recommendation = recommendation_of (final_score p),
      factors = weighted_factors p
                @ optional_factor ''insurance'' (insurance_sub p)
                @ optional_factor ''dependants'' (get_dependants_score (dependants p))\<rparr>"

subsection \<open>Classification (\<^verbatim>\<open>app.py\<close>)\<close>

text \<open>
  The Streamlit script carries its own \<^verbatim>\<open>classify_investor\<close>. Its helper functions and
  weights are the ones above; the locals that differ are given here with the prefix
  \<open>app_\<close>. Its factors are dictionaries with the two keys \<^verbatim>\<open>name\<close> and
  \<^verbatim>\<open>subscore\<close>, modelled as pairs, and it appends no insurance or dependants factor.
\<close>

definition app_emergency_ratio :: "InvestorInput \<Rightarrow> rat" where
  "app_emergency_ratio p =
     (case emergency_fund_months p of Some m \<Rightarrow> if m \<noteq> 0 then m / 6 else 0 | None \<Rightarrow> 0)"

definition app_financial_sub :: "InvestorInput \<Rightarrow> rat" where
  "app_financial_sub p =
     (income_score p + get_emergency_score_from_ratio (app_emergency_ratio p) + debt_score p) / 3"

definition app_raw_score :: "InvestorInput \<Rightarrow> rat" where
  "app_raw_score p =
     0 + age_sub p * weight_of ''age''
       + app_financial_sub p * weight_of ''financial_stability''
       + risk_tolerance_sub p * weight_of ''risk_tolerance''
       + time_sub p * weight_of ''time_horizon''
       + return_sub p * weight_of ''return_expectation''"

definition app_final_score :: "InvestorInput \<Rightarrow> rat" where
  "app_final_score p = round2 (min 100 (max 0 (app_raw_score p)))"

definition app_classify_investor :: "InvestorInput \<Rightarrow> (string \<times> rat) Result" where
  "app_classify_investor p =
     \<lparr>score = app_final_score p,
      profile = profile_of (app_final_score p),
      recommendation = recommendation_of (app_final_score p),
      factors =
        [(''age'', age_sub p),
         (''financial_stability'', round2 (app_financial_sub p)),
         (''risk_tolerance'', round2 (risk_tolerance_sub p)),
         (''time_horizon'', time_sub p),
         (''return_expectation'', return_sub p)]\<rparr>"

subsection \<open>Requests used as examples\<close>

text \<open>The end-to-end example of the specification; every other field keeps its default.\<close>

definition example_input :: InvestorInput where
  "example_input = InvestorInput_default
     \<lparr>age := Some 28, monthly_income := Some 120000, monthly_emi := Some 15000,
      emergency_fund_months := Some 4, dependants := Some 1, risk_attitude := Some 3,
      investment_knowledge := Some 3, drawdown_reaction := Some ''wait''\<rparr>"

text \<open>A request that scores highest on every factor, and one that scores lowest.\<close>

definition high_input :: InvestorInput where
  "high_input = InvestorInput_default
     \<lparr>age := Some 20, monthly_income := Some 10000000, monthly_emi := Some 0,
      emergency_fund_months := Some 12, risk_tolerance := Some ''aggressive'',
      time_horizon := Some 10, return_expectation := Some 20\<rparr>"

definition low_input :: InvestorInput where
  "low_input = InvestorInput_default
     \<lparr>age := Some 70, monthly_income := Some 0, monthly_emi := Some 1,
      risk_tolerance := Some ''conservative'',
      time_horizon := Some 1, return_expectation := Some 5\<rparr>"

text \<open>
  A request that gives the emergency fund as an amount, together with the monthly
  expenses, and no number of months.
\<close>

definition amount_input :: InvestorInput where
  "amount_input = InvestorInput_default
     \<lparr>age := Some 28, monthly_income := Some 120000, monthly_emi := Some 15000,
      emergency_fund_amount := Some 300000, monthly_expenses := Some 75000\<rparr>"

subsection \<open>The specification's wording, for comparison\<close>

text \<open>
  The three outputs that the specification calls the composite score, the profile label
  and the recommendation.
\<close>

definition verdict :: "'f Result \<Rightarrow> rat \<times> string \<times> string" where
  "verdict r = (score r, profile r, recommendation r)"

text \<open>
  The emergency-fund ratio in the specification's words: the amount over six months of
  expenses when the amount is present and the expenses are present and positive;
  otherwise the months over six when the months are present; otherwise 0.
\<close>

definition spec_months_ratio :: "InvestorInput \<Rightarrow> rat" where
  "spec_months_ratio p = (case emergency_fund_months p of Some m \<Rightarrow> m / 6 | None \<Rightarrow> 0)"

definition spec_emergency_ratio :: "InvestorInput \<Rightarrow> rat" where
  "spec_emergency_ratio p =
     (case emergency_fund_amount p of
        Some amount \<Rightarrow>
          (case monthly_expenses p of
             Some e \<Rightarrow> if 0 < e then of_int amount / (6 * of_int e) else spec_months_ratio p
           | None \<Rightarrow> spec_months_ratio p)
      | None \<Rightarrow> spec_months_ratio p)"

text \<open>
  The risk components in the specification's words: the mapped score of each of
  \<^verbatim>\<open>risk_attitude\<close>, \<^verbatim>\<open>investment_knowledge\<close> and \<^verbatim>\<open>drawdown_reaction\<close> that was
  supplied (present and not falsy), and the arithmetic mean of a list of scores.
\<close>

definition supplied_likert :: "int option \<Rightarrow> rat list" where
  "supplied_likert v =
     (case v of Some x \<Rightarrow> if x \<noteq> 0 then [get_or_60 likert x] else [] | None \<Rightarrow> [])"

definition supplied_drawdown :: "string option \<Rightarrow> rat list" where
  "supplied_drawdown v =
     (case v of Some x \<Rightarrow> if x \<noteq> [] then [get_or_60 dd_map x] else [] | None \<Rightarrow> [])"

definition supplied_components :: "InvestorInput \<Rightarrow> rat list" where
  "supplied_components p =
     supplied_likert (risk_attitude p) @ supplied_likert (investment_knowledge p)
       @ supplied_drawdown (drawdown_reaction p)"

definition arithmetic_mean :: "rat list \<Rightarrow> rat" where
  "arithmetic_mean xs = sum_list xs / of_nat (length xs)"

section \<open>Basic facts\<close>

lemma weight_of_simps:
  "weight_of ''age'' = 1 / 4"
  "weight_of ''financial_stability'' = 3 / 10"
  "weight_of ''risk_tolerance'' = 1 / 5"
  "weight_of ''time_horizon'' = 3 / 20"
  "weight_of ''return_expectation'' = 1 / 10"
  by (simp_all add: weight_of_def WEIGHTS_def)

subsection \<open>Rounding\<close>

lemma round_half_even_of_int: "round_half_even (of_int k) = k"
  by (simp add: round_half_even_def)

text \<open>A value with at most two decimals is left as it is.\<close>

lemma round2_id: "x * 100 \<in> \<int> \<Longrightarrow> round2 x = x"
  by (auto simp: round2_def round_half_even_of_int elim!: Ints_cases)

lemma round_half_even_floor: "\<lfloor>x\<rfloor> \<le> round_half_even x"
  by (simp add: round_half_even_def Let_def)

lemma round_half_even_ceiling: "round_half_even x \<le> \<lceil>x\<rceil>"
proof (cases "x = of_int \<lfloor>x\<rfloor>")
  case True
  then have "x - of_int \<lfloor>x\<rfloor> = 0" by simp
  then show ?thesis by (simp add: round_half_even_def Let_def)
next
  case False
  then have "\<lceil>x\<rceil> = \<lfloor>x\<rfloor> + 1"
    by (metis ceiling_altdef)
  then show ?thesis by (simp add: round_half_even_def Let_def)
qed

lemma round2_bounds:
  assumes "0 \<le> x" "x \<le> 100"
  shows "0 \<le> round2 x" and "round2 x \<le> 100"
proof -
  have "0 \<le> \<lfloor>x * 100\<rfloor>" using assms by simp
  then have lo: "0 \<le> round_half_even (x * 100)"
    using round_half_even_floor [of "x * 100"] by linarith
  have "x * 100 \<le> of_int 10000" using assms by simp
  then have "\<lceil>x * 100\<rceil> \<le> 10000" by (simp only: ceiling_le_iff)
  then have hi: "round_half_even (x * 100) \<le> 10000"
    using round_half_even_ceiling [of "x * 100"] by linarith
  from lo show "0 \<le> round2 x" by (simp add: round2_def)
  from hi show "round2 x \<le> 100" by (simp add: round2_def)
qed

subsection \<open>The values a sub-score can take\<close>

lemma age_sub_range: "age_sub p \<in> {10, 20, 40, 60, 75, 90}"
  by (simp add: age_sub_def get_age_score_def)

lemma income_score_range: "income_score p \<in> {30, 40, 50, 60, 70, 80, 85, 90, 95, 97, 100}"
  by (simp add: income_score_def get_income_score_from_threshold_def)

lemma get_emergency_score_range: "get_emergency_score_from_ratio r \<in> {30, 50, 60, 70, 90}"
  by (simp add: get_emergency_score_from_ratio_def)

lemma emergency_score_range: "emergency_score p \<in> {30, 50, 60, 70, 90}"
  unfolding emergency_score_def by (rule get_emergency_score_range)

lemma debt_score_range: "debt_score p \<in> {30, 45, 60, 75, 90}"
  by (simp add: debt_score_def get_debt_score_from_ratio_def)

lemma time_sub_range: "time_sub p \<in> {35, 65, 90}"
  by (simp add: time_sub_def get_time_horizon_score_def)

lemma return_sub_range: "return_sub p \<in> {35, 60, 75, 90}"
  by (simp add: return_sub_def get_return_expectation_score_def)

lemma likert_range: "get_or_60 likert v \<in> {30, 45, 60, 75, 90}"
  by (simp add: get_or_60_def likert_def)

lemma dd_map_range: "get_or_60 dd_map s \<in> {30, 45, 60, 75, 90}"
  by (simp add: get_or_60_def dd_map_def)

lemma risk_tolerance_mapping_range: "get_risk_tolerance_score s \<in> {30, 60, 90}"
  by (simp add: get_risk_tolerance_score_def get_or_60_def risk_tolerance_mapping_def)

lemma risk_subs_length: "length (risk_subs p) \<le> 3"
  by (cases "risk_attitude p"; cases "investment_knowledge p"; cases "drawdown_reaction p")
     (simp_all add: risk_subs_def)

lemma append_int_range:
  "\<forall>x\<in>set xs. x \<in> {30, 45, 60, 75, 90} \<Longrightarrow>
   \<forall>x\<in>set (append_if_truthy_int v xs). x \<in> {30, 45, 60, 75, 90}"
  using likert_range by (cases v) auto

lemma append_str_range:
  "\<forall>x\<in>set xs. x \<in> {30, 45, 60, 75, 90} \<Longrightarrow>
   \<forall>x\<in>set (append_if_truthy_str v xs). x \<in> {30, 45, 60, 75, 90}"
  using dd_map_range by (cases v) auto

lemma risk_subs_range: "\<forall>x\<in>set (risk_subs p). x \<in> {30, 45, 60, 75, 90}"
  unfolding risk_subs_def
  by (intro append_str_range append_int_range) simp

subsection \<open>The composite score needs no clamping and no rounding\<close>

lemma likert_value_shape:
  assumes "x \<in> {30, 45, 60, 75, 90 :: rat}"
  shows "x / 15 \<in> \<int>" and "30 \<le> x" and "x \<le> 90"
  using assms by auto

lemma mean_shape:
  assumes ne: "xs \<noteq> []" and len: "length xs \<le> 3"
    and els: "\<forall>x\<in>set xs. x \<in> {30, 45, 60, 75, 90 :: rat}"
  shows "20 * (sum_list xs / of_nat (length xs)) \<in> \<int>"
    and "30 \<le> sum_list xs / of_nat (length xs)"
    and "sum_list xs / of_nat (length xs) \<le> 90"
proof -
  consider a where "xs = [a]" | a b where "xs = [a, b]" | a b c where "xs = [a, b, c]"
    using ne len
    by (cases xs; simp; rename_tac ys, case_tac ys; simp; rename_tac zs, case_tac zs; simp)
  then have "20 * (sum_list xs / of_nat (length xs)) \<in> \<int>
      \<and> 30 \<le> sum_list xs / of_nat (length xs) \<and> sum_list xs / of_nat (length xs) \<le> 90"
  proof cases
    case 1
    with els have a: "a \<in> {30, 45, 60, 75, 90}" by simp
    have "20 * a = 300 * (a / 15)" by simp
    then have "20 * a \<in> \<int>" using likert_value_shape(1) [OF a] by (simp only: Ints_mult Ints_numeral)
    moreover have "sum_list xs / of_nat (length xs) = a" using 1 by simp
    ultimately show ?thesis using likert_value_shape(2,3) [OF a] by (simp only: simp_thms)
  next
    case 2
    with els have a: "a \<in> {30, 45, 60, 75, 90}" and b: "b \<in> {30, 45, 60, 75, 90}" by simp_all
    have "20 * ((a + b) / 2) = 150 * (a / 15 + b / 15)" by simp
    then have "20 * ((a + b) / 2) \<in> \<int>"
      using likert_value_shape(1) [OF a] likert_value_shape(1) [OF b]
      by (simp only: Ints_mult Ints_numeral Ints_add)
    moreover have "30 \<le> (a + b) / 2" "(a + b) / 2 \<le> 90"
      using likert_value_shape(2,3) [OF a] likert_value_shape(2,3) [OF b] by simp_all
    moreover have "sum_list xs / of_nat (length xs) = (a + b) / 2" using 2 by simp
    ultimately show ?thesis by (simp only: simp_thms)
  next
    case 3
    with els have a: "a \<in> {30, 45, 60, 75, 90}" and b: "b \<in> {30, 45, 60, 75, 90}"
      and c: "c \<in> {30, 45, 60, 75, 90}" by simp_all
    have "20 * ((a + b + c) / 3) = 100 * (a / 15 + b / 15 + c / 15)" by simp
    then have "20 * ((a + b + c) / 3) \<in> \<int>"
      using likert_value_shape(1) [OF a] likert_value_shape(1) [OF b]
        likert_value_shape(1) [OF c]
      by (simp only: Ints_mult Ints_numeral Ints_add)
    moreover have "30 \<le> (a + b + c) / 3" "(a + b + c) / 3 \<le> 90"
      using likert_value_shape(2,3) [OF a] likert_value_shape(2,3) [OF b]
        likert_value_shape(2,3) [OF c] by simp_all
    moreover have "sum_list xs / of_nat (length xs) = (a + b + c) / 3"
      using 3 by (simp add: add.assoc)
    ultimately show ?thesis by (simp only: simp_thms)
  qed
  then show "20 * (sum_list xs / of_nat (length xs)) \<in> \<int>"
    and "30 \<le> sum_list xs / of_nat (length xs)"
    and "sum_list xs / of_nat (length xs) \<le> 90" by blast+
qed

lemma risk_tolerance_sub_cases:
  "risk_tolerance_sub p \<in> {30, 60, 90}
   \<or> risk_subs p \<noteq> []
     \<and> risk_tolerance_sub p = sum_list (risk_subs p) / of_nat (length (risk_subs p))"
  using risk_tolerance_mapping_range
  by (auto simp: risk_tolerance_sub_def split: option.splits)

lemma risk_tolerance_sub_shape:
  "20 * risk_tolerance_sub p \<in> \<int>" "30 \<le> risk_tolerance_sub p"
  "risk_tolerance_sub p \<le> 90"
  using risk_tolerance_sub_cases [of p] mean_shape [OF _ risk_subs_length risk_subs_range, of p]
  by auto


lemma raw_score_times_100:
  "raw_score p * 100 = 25 * age_sub p
      + 10 * (income_score p + emergency_score p + debt_score p)
      + 20 * risk_tolerance_sub p + 15 * time_sub p + 10 * return_sub p"
  by (simp add: raw_score_def weight_of_simps financial_sub_def)

lemma raw_score_hundredths: "raw_score p * 100 \<in> \<int>"
proof -
  have a: "age_sub p \<in> \<int>" using age_sub_range [of p] by auto
  have i: "income_score p \<in> \<int>" using income_score_range [of p] by auto
  have e: "emergency_score p \<in> \<int>" using emergency_score_range [of p] by auto
  have d: "debt_score p \<in> \<int>" using debt_score_range [of p] by auto
  have t: "time_sub p \<in> \<int>" using time_sub_range [of p] by auto
  have r: "return_sub p \<in> \<int>" using return_sub_range [of p] by auto
  show ?thesis
    using a i e d t r risk_tolerance_sub_shape(1) [of p]
    by (simp only: raw_score_times_100 Ints_mult Ints_add Ints_numeral)
qed

lemma raw_score_bounds: "105 / 4 \<le> raw_score p" "raw_score p \<le> 91"
proof -
  have a: "10 \<le> age_sub p" "age_sub p \<le> 90" using age_sub_range [of p] by auto
  have i: "30 \<le> income_score p" "income_score p \<le> 100"
    using income_score_range [of p] by auto
  have e: "30 \<le> emergency_score p" "emergency_score p \<le> 90"
    using emergency_score_range [of p] by auto
  have d: "30 \<le> debt_score p" "debt_score p \<le> 90" using debt_score_range [of p] by auto
  have t: "35 \<le> time_sub p" "time_sub p \<le> 90" using time_sub_range [of p] by auto
  have r: "35 \<le> return_sub p" "return_sub p \<le> 90" using return_sub_range [of p] by auto
  note k = risk_tolerance_sub_shape(2,3) [of p]
  have "2625 \<le> raw_score p * 100"
    unfolding raw_score_times_100 using a i e d t r k by simp
  moreover have "raw_score p * 100 \<le> 9100"
    unfolding raw_score_times_100 using a i e d t r k by simp
  ultimately show "105 / 4 \<le> raw_score p" "raw_score p \<le> 91" by simp_all
qed

lemma final_score_raw: "final_score p = raw_score p"
proof -
  have "min 100 (max 0 (raw_score p)) = raw_score p"
    using raw_score_bounds [of p] by simp
  then show ?thesis by (simp add: final_score_def round2_id raw_score_hundredths)
qed

section \<open>The end-to-end example\<close>

lemma example_subs:
  "age_sub example_input = 75"
  "debt_score example_input = 75"
  "income_score example_input = 60"
  "emergency_score example_input = 50"
  "financial_sub example_input = 185 / 3"
  "risk_tolerance_sub example_input = 60"
  "time_sub example_input = 65"
  "return_sub example_input = 60"
  by (simp_all add: example_input_def InvestorInput_default_def age_sub_def get_age_score_def
      debt_score_def emi_ratio_def get_debt_score_from_ratio_def income_score_def
      get_income_score_from_threshold_def emergency_score_def emergency_ratio_def
      get_emergency_score_from_ratio_def financial_sub_def risk_tolerance_sub_def risk_subs_def
      get_or_60_def likert_def dd_map_def time_sub_def get_time_horizon_score_def
      return_sub_def get_return_expectation_score_def)

lemma example_final_score: "final_score example_input = 65"
  by (simp add: final_score_raw raw_score_def example_subs weight_of_simps)

lemma floor_numeral_div: "\<lfloor>numeral a / numeral b :: rat\<rfloor> = numeral a div numeral b"
  using floor_divide_of_int_eq [of "numeral a" "numeral b", where ?'a = rat] by simp

lemma round2_185_3: "round2 (185 / 3) = 6167 / 100"
  by (simp add: round2_def round_half_even_def Let_def floor_numeral_div)

lemma example_factors:
  "factors (classify_investor example_input) =
     [\<lparr>name = ''age'', subscore = 75, weight = Some (1 / 4), weighted = Some (1875 / 100)\<rparr>,
      \<lparr>name = ''financial_stability'', subscore = 6167 / 100, weight = Some (3 / 10),
       weighted = Some (185 / 10)\<rparr>,
      \<lparr>name = ''risk_tolerance'', subscore = 60, weight = Some (1 / 5), weighted = Some 12\<rparr>,
      \<lparr>name = ''time_horizon'', subscore = 65, weight = Some (3 / 20),
       weighted = Some (975 / 100)\<rparr>,
      \<lparr>name = ''return_expectation'', subscore = 60, weight = Some (1 / 10),
       weighted = Some 6\<rparr>,
      \<lparr>name = ''dependants'', subscore = 75, weight = None, weighted = None\<rparr>]"
proof -
  have opt: "insurance_sub example_input = None"
    "get_dependants_score (dependants example_input) = Some 75"
    by (simp_all add: insurance_sub_def example_input_def InvestorInput_default_def)
  have r: "round2 (75 / 4) = 75 / 4" "round2 (37 / 2) = 37 / 2" "round2 12 = 12"
    "round2 60 = 60" "round2 (39 / 4) = 39 / 4" "round2 6 = 6"
    by (rule round2_id, simp)+
  show ?thesis
    by (simp add: classify_investor_def weighted_factors_def example_subs weight_of_simps
        optional_factor_def opt r round2_185_3)
qed

text \<open>
  Claim C1, as the specification states it: on the example request the engine returns the
  composite score 64.0, the profile "Moderate", the recommendation "debt > equity > gold",
  and the sub-scores age 75, debt 75, income 60, emergency 60, financial stability 65,
  risk tolerance 50, time horizon 65, return expectation 60. The engine does not: the
  statement below is the negation of that conjunction.
\<close>

theorem C1_example_counterexample:
  "\<not> (score (classify_investor example_input) = 64
      \<and> profile (classify_investor example_input) = ''Moderate''
      \<and> recommendation (classify_investor example_input) = ''debt > equity > gold''
      \<and> age_sub example_input = 75 \<and> debt_score example_input = 75
      \<and> income_score example_input = 60 \<and> emergency_score example_input = 60
      \<and> financial_sub example_input = 65 \<and> risk_tolerance_sub example_input = 50
      \<and> time_sub example_input = 65 \<and> return_sub example_input = 60)"
  by (simp add: classify_investor_def example_final_score)

text \<open>
  Claim C1, amended: on the example request the engine returns the composite score 65.0,
  the profile "Moderate-Aggressive" and the recommendation "invest in debt > equity > gold".
  The sub-scores are age 75, debt 75, income 60, emergency 50 (the ratio 4/6 is not above
  0.75), financial stability 185/3, reported as 61.67, risk tolerance 60 (a Likert value of 3
  maps to 60, and "wait" to 60), time horizon 65 and return expectation 60.
\<close>

theorem C1_example:
  "score (classify_investor example_input) = 65
   \<and> profile (classify_investor example_input) = ''Moderate-Aggressive''
   \<and> recommendation (classify_investor example_input) = ''invest in debt > equity > gold''
   \<and> age_sub example_input = 75 \<and> debt_score example_input = 75
   \<and> income_score example_input = 60 \<and> emergency_score example_input = 50
   \<and> financial_sub example_input = 185 / 3
   \<and> subscore (factors (classify_investor example_input) ! 1) = 6167 / 100
   \<and> risk_tolerance_sub example_input = 60
   \<and> time_sub example_input = 65 \<and> return_sub example_input = 60"
  by (simp add: example_factors example_subs)
     (simp add: classify_investor_def example_final_score profile_of_def recommendation_of_def)

section \<open>Recommendation and profile\<close>

lemmas score_defs = age_sub_def get_age_score_def
      debt_score_def emi_ratio_def get_debt_score_from_ratio_def income_score_def
      get_income_score_from_threshold_def emergency_score_def emergency_ratio_def
      get_emergency_score_from_ratio_def financial_sub_def risk_tolerance_sub_def risk_subs_def
      get_or_60_def likert_def dd_map_def time_sub_def get_time_horizon_score_def
      return_sub_def get_return_expectation_score_def get_risk_tolerance_score_def
      risk_tolerance_mapping_def

lemma high_final_score: "final_score high_input = 91"
  by (simp add: final_score_raw raw_score_def weight_of_simps high_input_def
      InvestorInput_default_def score_defs)

lemma low_final_score: "final_score low_input = 105 / 4"
  by (simp add: final_score_raw raw_score_def weight_of_simps low_input_def
      InvestorInput_default_def score_defs)

text \<open>
  Claim C2, as the specification states it: the recommendation is exactly
  "equity > debt > gold" when the score is at least 70, exactly "debt > equity > gold" when
  it is at least 40 and below 70, and exactly "debt > gold > equity" when it is below 40.
  One request in each bracket shows that the returned string is a different one.
\<close>

theorem C2_recommendation_counterexample:
  "70 \<le> score (classify_investor high_input)
   \<and> recommendation (classify_investor high_input) \<noteq> ''equity > debt > gold''
   \<and> 40 \<le> score (classify_investor example_input)
   \<and> score (classify_investor example_input) < 70
   \<and> recommendation (classify_investor example_input) \<noteq> ''debt > equity > gold''
   \<and> score (classify_investor low_input) < 40
   \<and> recommendation (classify_investor low_input) \<noteq> ''debt > gold > equity''"
  by (simp add: classify_investor_def high_final_score example_final_score low_final_score
      recommendation_of_def)

text \<open>
  Claim C2, amended: in both \<^verbatim>\<open>back.py\<close> and \<^verbatim>\<open>app.py\<close>, for every request the
  recommendation is exactly "invest in equity > debt > gold" when the returned score is at
  least 70, exactly "invest in debt > equity > gold" when it is at least 40 and below 70,
  and exactly "invest in debt > gold > equity" when it is below 40.
\<close>

theorem C2_recommendation:
  "recommendation (classify_investor p) =
     (if 70 \<le> score (classify_investor p) then ''invest in equity > debt > gold''
      else if 40 \<le> score (classify_investor p) then ''invest in debt > equity > gold''
      else ''invest in debt > gold > equity'')
   \<and> recommendation (app_classify_investor p) =
     (if 70 \<le> score (app_classify_investor p) then ''invest in equity > debt > gold''
      else if 40 \<le> score (app_classify_investor p) then ''invest in debt > equity > gold''
      else ''invest in debt > gold > equity'')"
  by (simp add: classify_investor_def app_classify_investor_def recommendation_of_def)

text \<open>The three brackets are reached, by the three example requests.\<close>

theorem C2_recommendation_witness:
  "score (classify_investor high_input) = 91
   \<and> recommendation (classify_investor high_input) = ''invest in equity > debt > gold''
   \<and> score (classify_investor example_input) = 65
   \<and> recommendation (classify_investor example_input) = ''invest in debt > equity > gold''
   \<and> score (classify_investor low_input) = 105 / 4
   \<and> recommendation (classify_investor low_input) = ''invest in debt > gold > equity''"
proof -
  have s: "score (classify_investor high_input) = 91"
    "score (classify_investor example_input) = 65"
    "score (classify_investor low_input) = 105 / 4"
    by (simp_all add: classify_investor_def high_final_score example_final_score
        low_final_score)
  show ?thesis
    using C2_recommendation [of high_input] C2_recommendation [of example_input]
      C2_recommendation [of low_input]
    by (simp add: s)
qed

text \<open>
  Claim C5: for every request the returned score lies in [0, 100], and the profile is one
  of the six names, the one of the bracket (at most 25, 40, 60, 75, 90, above) that the
  returned score falls in.
\<close>

theorem C5_score_and_profile:
  "0 \<le> score (classify_investor p) \<and> score (classify_investor p) \<le> 100
   \<and> profile (classify_investor p) \<in>
       {''Ultra-Conservative'', ''Conservative'', ''Moderate'', ''Moderate-Aggressive'',
        ''Aggressive'', ''Ultra-Aggressive''}
   \<and> profile (classify_investor p) =
       (if score (classify_investor p) \<le> 25 then ''Ultra-Conservative''
        else if score (classify_investor p) \<le> 40 then ''Conservative''
        else if score (classify_investor p) \<le> 60 then ''Moderate''
        else if score (classify_investor p) \<le> 75 then ''Moderate-Aggressive''
        else if score (classify_investor p) \<le> 90 then ''Aggressive''
        else ''Ultra-Aggressive'')"
proof -
  have "0 \<le> min 100 (max 0 (raw_score p))" "min 100 (max 0 (raw_score p)) \<le> 100"
    by simp_all
  then have "0 \<le> final_score p" "final_score p \<le> 100"
    unfolding final_score_def by (rule round2_bounds)+
  then show ?thesis
    by (simp add: classify_investor_def profile_of_def)
qed

text \<open>Three requests, in three different brackets.\<close>

theorem C5_score_and_profile_witness:
  "score (classify_investor high_input) = 91
   \<and> profile (classify_investor high_input) = ''Ultra-Aggressive''
   \<and> score (classify_investor example_input) = 65
   \<and> profile (classify_investor example_input) = ''Moderate-Aggressive''
   \<and> score (classify_investor low_input) = 105 / 4
   \<and> profile (classify_investor low_input) = ''Conservative''"
proof -
  have s: "score (classify_investor high_input) = 91"
    "score (classify_investor example_input) = 65"
    "score (classify_investor low_input) = 105 / 4"
    by (simp_all add: classify_investor_def high_final_score example_final_score
        low_final_score)
  show ?thesis
    using C5_score_and_profile [of high_input] C5_score_and_profile [of example_input]
      C5_score_and_profile [of low_input]
    by (simp add: s)
qed


section \<open>The debt ratio without income\<close>

text \<open>
  Claim C3 says that a request with \<^verbatim>\<open>monthly_income\<close> 0 or absent has the worst-case
  EMI ratio 100 and the debt score 30, also when \<^verbatim>\<open>monthly_emi\<close> is 0. The engine
  replaces the income by 1 before the test \<^verbatim>\<open>if monthly_income else 100.0\<close>, whose
  \<^verbatim>\<open>else\<close> is then never taken: on the request with no income and no EMI (the
  defaults), and on the one whose income is null, the ratio is 0 and the debt score 90.
\<close>

theorem C3_zero_income_zero_emi:
  "monthly_income InvestorInput_default = Some 0
   \<and> monthly_emi InvestorInput_default = Some 0
   \<and> emi_ratio InvestorInput_default = 0
   \<and> debt_score InvestorInput_default = 90
   \<and> emi_ratio (InvestorInput_default\<lparr>monthly_income := None\<rparr>) = 0
   \<and> debt_score (InvestorInput_default\<lparr>monthly_income := None\<rparr>) = 90"
  by (simp add: InvestorInput_default_def debt_score_def emi_ratio_def
      get_debt_score_from_ratio_def)


section \<open>Insurance and dependants are advisory\<close>

lemma final_score_cong:
  "age_sub q = age_sub p \<Longrightarrow> financial_sub q = financial_sub p \<Longrightarrow>
   risk_tolerance_sub q = risk_tolerance_sub p \<Longrightarrow> time_sub q = time_sub p \<Longrightarrow>
   return_sub q = return_sub p \<Longrightarrow> final_score q = final_score p"
  by (simp add: final_score_def raw_score_def)

lemma weighted_factors_cong:
  "age_sub q = age_sub p \<Longrightarrow> financial_sub q = financial_sub p \<Longrightarrow>
   risk_tolerance_sub q = risk_tolerance_sub p \<Longrightarrow> time_sub q = time_sub p \<Longrightarrow>
   return_sub q = return_sub p \<Longrightarrow> weighted_factors q = weighted_factors p"
  by (simp add: weighted_factors_def)

lemma advisory_risk_subs:
  "risk_subs (p\<lparr>insurance_amount := a\<rparr>) = risk_subs p"
  "risk_subs (p\<lparr>dependants := d\<rparr>) = risk_subs p"
  "risk_subs (p\<lparr>insurance := i\<rparr>) = risk_subs p"
  by (simp_all add: risk_subs_def)

lemma advisory_emergency_ratio:
  "emergency_ratio (p\<lparr>insurance_amount := a\<rparr>) = emergency_ratio p"
  "emergency_ratio (p\<lparr>dependants := d\<rparr>) = emergency_ratio p"
  "emergency_ratio (p\<lparr>insurance := i\<rparr>) = emergency_ratio p"
  by (simp_all add: emergency_ratio_def cong: option.case_cong if_cong)

lemma advisory_fields_irrelevant:
  "age_sub (p\<lparr>insurance_amount := a\<rparr>) = age_sub p"
  "financial_sub (p\<lparr>insurance_amount := a\<rparr>) = financial_sub p"
  "risk_tolerance_sub (p\<lparr>insurance_amount := a\<rparr>) = risk_tolerance_sub p"
  "time_sub (p\<lparr>insurance_amount := a\<rparr>) = time_sub p"
  "return_sub (p\<lparr>insurance_amount := a\<rparr>) = return_sub p"
  "age_sub (p\<lparr>dependants := d\<rparr>) = age_sub p"
  "financial_sub (p\<lparr>dependants := d\<rparr>) = financial_sub p"
  "risk_tolerance_sub (p\<lparr>dependants := d\<rparr>) = risk_tolerance_sub p"
  "time_sub (p\<lparr>dependants := d\<rparr>) = time_sub p"
  "return_sub (p\<lparr>dependants := d\<rparr>) = return_sub p"
  "age_sub (p\<lparr>insurance := i\<rparr>) = age_sub p"
  "financial_sub (p\<lparr>insurance := i\<rparr>) = financial_sub p"
  "risk_tolerance_sub (p\<lparr>insurance := i\<rparr>) = risk_tolerance_sub p"
  "time_sub (p\<lparr>insurance := i\<rparr>) = time_sub p"
  "return_sub (p\<lparr>insurance := i\<rparr>) = return_sub p"
  by (simp_all add: age_sub_def financial_sub_def income_score_def emergency_score_def
      advisory_emergency_ratio debt_score_def emi_ratio_def risk_tolerance_sub_def
      advisory_risk_subs time_sub_def return_sub_def cong: option.case_cong if_cong)

lemma verdict_classify: "verdict (classify_investor p) =
    (final_score p, profile_of (final_score p), recommendation_of (final_score p))"
  by (simp add: verdict_def classify_investor_def)

lemma weighted_factors_names:
  "f \<in> set (weighted_factors p) \<Longrightarrow> name f \<noteq> ''insurance'' \<and> name f \<noteq> ''dependants''"
  by (auto simp: weighted_factors_def)

lemma optional_factor_cases:
  "optional_factor n sub = []
   \<or> (\<exists>s. optional_factor n sub = [\<lparr>name = n, subscore = s, weight = None, weighted = None\<rparr>])"
  by (cases sub) (simp_all add: optional_factor_def)

lemma optional_factor_null:
  "f \<in> set (optional_factor n sub) \<Longrightarrow> weight f = None \<and> weighted f = None"
  using optional_factor_cases [of n sub] by fastforce

text \<open>
  Claim C4: for every request and every value of \<^verbatim>\<open>insurance_amount\<close>, of
  \<^verbatim>\<open>dependants\<close> and of the \<^verbatim>\<open>insurance\<close> record, the composite score, the profile
  and the recommendation are those of the same request with that field absent; and every
  factor named "insurance" or "dependants" in the returned list has a null weight and a
  null weighted contribution.
\<close>

theorem C4_advisory_factors:
  "verdict (classify_investor (p\<lparr>insurance_amount := a\<rparr>))
     = verdict (classify_investor (p\<lparr>insurance_amount := None\<rparr>))
   \<and> verdict (classify_investor (p\<lparr>dependants := d\<rparr>))
     = verdict (classify_investor (p\<lparr>dependants := None\<rparr>))
   \<and> verdict (classify_investor (p\<lparr>insurance := i\<rparr>))
     = verdict (classify_investor (p\<lparr>insurance := None\<rparr>))
   \<and> (\<forall>f \<in> set (factors (classify_investor p)).
        name f = ''insurance'' \<or> name f = ''dependants'' \<longrightarrow>
        weight f = None \<and> weighted f = None)"
proof -
  have "final_score (p\<lparr>insurance_amount := a\<rparr>) = final_score (p\<lparr>insurance_amount := None\<rparr>)"
    "final_score (p\<lparr>dependants := d\<rparr>) = final_score (p\<lparr>dependants := None\<rparr>)"
    "final_score (p\<lparr>insurance := i\<rparr>) = final_score (p\<lparr>insurance := None\<rparr>)"
    by (rule final_score_cong; simp only: advisory_fields_irrelevant)+
  moreover have "\<forall>f \<in> set (factors (classify_investor p)).
        name f = ''insurance'' \<or> name f = ''dependants'' \<longrightarrow>
        weight f = None \<and> weighted f = None"
    using weighted_factors_names [of _ p] optional_factor_null
    by (auto simp: classify_investor_def)
  ultimately show ?thesis by (simp only: verdict_classify simp_thms)
qed

text \<open>
  The example request with an insurance amount of 1,000,000: the verdict is that of the
  request without it, and the list holds an insurance and a dependants factor.
\<close>

lemma insured_example_factors:
  "factors (classify_investor (example_input\<lparr>insurance_amount := Some 1000000\<rparr>)) =
     weighted_factors example_input @
     [\<lparr>name = ''insurance'', subscore = 60, weight = None, weighted = None\<rparr>,
      \<lparr>name = ''dependants'', subscore = 75, weight = None, weighted = None\<rparr>]"
proof -
  have "weighted_factors (example_input\<lparr>insurance_amount := Some 1000000\<rparr>)
      = weighted_factors example_input"
    by (rule weighted_factors_cong; simp only: advisory_fields_irrelevant)
  moreover have "insurance_sub (example_input\<lparr>insurance_amount := Some 1000000\<rparr>) = Some 60"
    "get_dependants_score (dependants (example_input\<lparr>insurance_amount := Some 1000000\<rparr>))
      = Some 75"
    by (simp_all add: insurance_sub_def example_input_def InvestorInput_default_def)
  ultimately show ?thesis by (simp add: classify_investor_def optional_factor_def)
qed

theorem C4_advisory_factors_witness:
  "verdict (classify_investor (example_input\<lparr>insurance_amount := Some 1000000\<rparr>))
     = (65, ''Moderate-Aggressive'', ''invest in debt > equity > gold'')
   \<and> verdict (classify_investor (example_input\<lparr>insurance_amount := None\<rparr>))
     = (65, ''Moderate-Aggressive'', ''invest in debt > equity > gold'')
   \<and> \<lparr>name = ''insurance'', subscore = 60, weight = None, weighted = None\<rparr>
       \<in> set (factors (classify_investor (example_input\<lparr>insurance_amount := Some 1000000\<rparr>)))
   \<and> \<lparr>name = ''dependants'', subscore = 75, weight = None, weighted = None\<rparr>
       \<in> set (factors (classify_investor (example_input\<lparr>insurance_amount := Some 1000000\<rparr>)))"
proof -
  have e: "example_input\<lparr>insurance_amount := None\<rparr> = example_input"
    by (simp add: example_input_def InvestorInput_default_def)
  have v: "verdict (classify_investor example_input)
      = (65, ''Moderate-Aggressive'', ''invest in debt > equity > gold'')"
    by (simp add: verdict_classify example_final_score profile_of_def recommendation_of_def)
  show ?thesis
    using C4_advisory_factors [where p = example_input and a = "Some 1000000"]
    by (simp add: e v insured_example_factors)
qed


section \<open>The emergency-fund ratio\<close>

lemma emergency_ratio_spec: "emergency_ratio p = spec_emergency_ratio p"
  by (cases "emergency_fund_amount p"; cases "monthly_expenses p")
     (simp_all add: emergency_ratio_def spec_emergency_ratio_def spec_months_ratio_def)

lemma app_emergency_ratio_months: "app_emergency_ratio p = spec_months_ratio p"
  by (cases "emergency_fund_months p")
     (simp_all add: app_emergency_ratio_def spec_months_ratio_def)

lemma spec_ratio_without_amount:
  "emergency_fund_amount p = None \<Longrightarrow> spec_emergency_ratio p = spec_months_ratio p"
  by (simp add: spec_emergency_ratio_def)

text \<open>
  Claim C6: for every request, the ratio that \<^verbatim>\<open>back.py\<close> feeds to the emergency score
  is the amount over six months of expenses when the amount is present and the expenses are
  present and positive, otherwise the months over six when the months are present,
  otherwise 0. The copy in \<^verbatim>\<open>app.py\<close> reads the months only; its single call builds the
  request without an amount, and on every request without an amount it feeds the same
  ratio.
\<close>

theorem C6_emergency_ratio:
  "emergency_ratio p = spec_emergency_ratio p
   \<and> emergency_score p = get_emergency_score_from_ratio (spec_emergency_ratio p)
   \<and> (emergency_fund_amount p = None \<longrightarrow> app_emergency_ratio p = spec_emergency_ratio p)"
  by (simp add: emergency_ratio_spec emergency_score_def app_emergency_ratio_months
      spec_ratio_without_amount)

text \<open>
  The example request gives the months only, and both copies feed 4/6; the request with
  the amount and the expenses makes \<^verbatim>\<open>back.py\<close> feed 300000/450000, which scores 50.
\<close>

theorem C6_emergency_ratio_witness:
  "emergency_fund_amount example_input = None
   \<and> emergency_ratio example_input = 2 / 3
   \<and> app_emergency_ratio example_input = 2 / 3
   \<and> emergency_fund_amount amount_input = Some 300000
   \<and> monthly_expenses amount_input = Some 75000
   \<and> emergency_ratio amount_input = 2 / 3
   \<and> emergency_score amount_input = 50"
proof -
  have a: "emergency_fund_amount example_input = None"
    "emergency_fund_amount amount_input = Some 300000"
    "monthly_expenses amount_input = Some 75000"
    by (simp_all add: example_input_def amount_input_def InvestorInput_default_def)
  have s: "spec_emergency_ratio example_input = 2 / 3" "spec_emergency_ratio amount_input = 2 / 3"
    by (simp_all add: spec_emergency_ratio_def spec_months_ratio_def example_input_def
        amount_input_def InvestorInput_default_def)
  show ?thesis
    using C6_emergency_ratio [of example_input] C6_emergency_ratio [of amount_input] a
    by (simp add: s get_emergency_score_from_ratio_def)
qed

section \<open>A Likert value of zero\<close>

lemma zero_likert_risk_subs:
  "risk_subs (p\<lparr>risk_attitude := Some 0\<rparr>) = risk_subs (p\<lparr>risk_attitude := None\<rparr>)"
  "risk_subs (p\<lparr>investment_knowledge := Some 0\<rparr>)
     = risk_subs (p\<lparr>investment_knowledge := None\<rparr>)"
  by (simp_all add: risk_subs_def)

lemma likert_fields_elsewhere:
  "age_sub (p\<lparr>risk_attitude := v\<rparr>) = age_sub p"
  "financial_sub (p\<lparr>risk_attitude := v\<rparr>) = financial_sub p"
  "time_sub (p\<lparr>risk_attitude := v\<rparr>) = time_sub p"
  "return_sub (p\<lparr>risk_attitude := v\<rparr>) = return_sub p"
  "insurance_sub (p\<lparr>risk_attitude := v\<rparr>) = insurance_sub p"
  "age_sub (p\<lparr>investment_knowledge := v\<rparr>) = age_sub p"
  "financial_sub (p\<lparr>investment_knowledge := v\<rparr>) = financial_sub p"
  "time_sub (p\<lparr>investment_knowledge := v\<rparr>) = time_sub p"
  "return_sub (p\<lparr>investment_knowledge := v\<rparr>) = return_sub p"
  "insurance_sub (p\<lparr>investment_knowledge := v\<rparr>) = insurance_sub p"
  by (simp_all add: age_sub_def financial_sub_def income_score_def emergency_score_def
      emergency_ratio_def debt_score_def emi_ratio_def time_sub_def return_sub_def
      insurance_sub_def cong: option.case_cong if_cong)

lemma zero_likert_risk_tolerance_sub:
  "risk_tolerance_sub (p\<lparr>risk_attitude := Some 0\<rparr>)
     = risk_tolerance_sub (p\<lparr>risk_attitude := None\<rparr>)"
  "risk_tolerance_sub (p\<lparr>investment_knowledge := Some 0\<rparr>)
     = risk_tolerance_sub (p\<lparr>investment_knowledge := None\<rparr>)"
  by (simp_all add: risk_tolerance_sub_def zero_likert_risk_subs cong: option.case_cong if_cong)

text \<open>
  Claim C8: for every request, the whole result for \<^verbatim>\<open>risk_attitude\<close> 0 is the result
  for \<^verbatim>\<open>risk_attitude\<close> absent, and likewise for \<^verbatim>\<open>investment_knowledge\<close>.
\<close>

theorem C8_zero_likert_is_absent:
  "classify_investor (p\<lparr>risk_attitude := Some 0\<rparr>)
     = classify_investor (p\<lparr>risk_attitude := None\<rparr>)
   \<and> classify_investor (p\<lparr>investment_knowledge := Some 0\<rparr>)
     = classify_investor (p\<lparr>investment_knowledge := None\<rparr>)"
  by (simp add: classify_investor_def final_score_def raw_score_def weighted_factors_def
      likert_fields_elsewhere zero_likert_risk_tolerance_sub)

text \<open>
  On the example request, a risk attitude of 0 leaves the mean of the two other components,
  60, where the lowest rating 1 would give 50.
\<close>

theorem C8_zero_likert_is_absent_witness:
  "risk_tolerance_sub (example_input\<lparr>risk_attitude := Some 0\<rparr>) = 60
   \<and> risk_tolerance_sub (example_input\<lparr>risk_attitude := Some 1\<rparr>) = 50
   \<and> score (classify_investor (example_input\<lparr>risk_attitude := Some 0\<rparr>)) = 65
   \<and> score (classify_investor (example_input\<lparr>risk_attitude := None\<rparr>)) = 65"
proof -
  have r: "risk_tolerance_sub (example_input\<lparr>risk_attitude := None\<rparr>) = 60"
    "risk_tolerance_sub (example_input\<lparr>risk_attitude := Some 0\<rparr>) = 60"
    "risk_tolerance_sub (example_input\<lparr>risk_attitude := Some 1\<rparr>) = 50"
    by (simp_all add: risk_tolerance_sub_def risk_subs_def example_input_def
        InvestorInput_default_def get_or_60_def likert_def dd_map_def)
  have "final_score (example_input\<lparr>risk_attitude := None\<rparr>) = 65"
    by (simp add: final_score_raw raw_score_def likert_fields_elsewhere r example_subs
        weight_of_simps)
  then have "score (classify_investor (example_input\<lparr>risk_attitude := None\<rparr>)) = 65"
    by (simp add: classify_investor_def)
  then show ?thesis
    using C8_zero_likert_is_absent [of example_input] by (simp add: r)
qed


section \<open>The risk-tolerance sub-score without a label\<close>

lemma risk_subs_supplied: "risk_subs p = supplied_components p"
  by (cases "risk_attitude p"; cases "investment_knowledge p"; cases "drawdown_reaction p")
     (simp_all add: risk_subs_def supplied_components_def supplied_likert_def
        supplied_drawdown_def)

lemma supplied_components_empty:
  "supplied_components p = [] \<longleftrightarrow>
     \<not> truthy_num (risk_attitude p) \<and> \<not> truthy_num (investment_knowledge p)
     \<and> \<not> truthy_str (drawdown_reaction p)"
  by (cases "risk_attitude p"; cases "investment_knowledge p"; cases "drawdown_reaction p")
     (simp_all add: supplied_components_def supplied_likert_def supplied_drawdown_def)

lemma risk_tolerance_sub_without_label:
  "\<not> truthy_str (risk_tolerance p) \<Longrightarrow>
   risk_tolerance_sub p =
     (if supplied_components p = [] then 60 else arithmetic_mean (supplied_components p))"
  by (cases "risk_tolerance p")
     (simp_all add: risk_tolerance_sub_def risk_subs_supplied arithmetic_mean_def)

lemma risk_tolerance_sub_reported:
  "subscore (factors (classify_investor p) ! 2) = risk_tolerance_sub p"
proof -
  have "risk_tolerance_sub p * 100 = 5 * (20 * risk_tolerance_sub p)" by simp
  then have "risk_tolerance_sub p * 100 \<in> \<int>"
    using risk_tolerance_sub_shape(1) [of p] by (simp only: Ints_mult Ints_numeral)
  then have "round2 (risk_tolerance_sub p) = risk_tolerance_sub p" by (rule round2_id)
  then show ?thesis
    by (simp add: classify_investor_def weighted_factors_def nth_append)
qed

text \<open>
  Claim C7: for every request whose \<^verbatim>\<open>risk_tolerance\<close> is absent or falsy, the
  risk-tolerance sub-score is exactly 60 when \<^verbatim>\<open>risk_attitude\<close>,
  \<^verbatim>\<open>investment_knowledge\<close> and \<^verbatim>\<open>drawdown_reaction\<close> are all absent or falsy, and
  otherwise the arithmetic mean of the mapped scores of those that were supplied; the
  sub-score reported in the factor list is that value, unchanged by the rounding.
\<close>

theorem C7_risk_tolerance_fallback:
  "\<not> truthy_str (risk_tolerance p) \<longrightarrow>
     (supplied_components p = [] \<longleftrightarrow>
        \<not> truthy_num (risk_attitude p) \<and> \<not> truthy_num (investment_knowledge p)
        \<and> \<not> truthy_str (drawdown_reaction p))
     \<and> (supplied_components p = [] \<longrightarrow> risk_tolerance_sub p = 60)
     \<and> (supplied_components p \<noteq> [] \<longrightarrow>
          risk_tolerance_sub p = arithmetic_mean (supplied_components p))
     \<and> subscore (factors (classify_investor p) ! 2) = risk_tolerance_sub p"
  using supplied_components_empty [of p]
  by (simp add: risk_tolerance_sub_without_label risk_tolerance_sub_reported)

text \<open>
  The empty request scores 60; with a risk attitude of 2 and the reaction "buy_more" the
  sub-score is the mean of 45 and 90.
\<close>

theorem C7_risk_tolerance_fallback_witness:
  "\<not> truthy_str (risk_tolerance InvestorInput_default)
   \<and> supplied_components InvestorInput_default = []
   \<and> risk_tolerance_sub InvestorInput_default = 60
   \<and> subscore (factors (classify_investor InvestorInput_default) ! 2) = 60
   \<and> supplied_components
        (InvestorInput_default\<lparr>risk_attitude := Some 2, drawdown_reaction := Some ''buy_more''\<rparr>)
       = [45, 90]
   \<and> risk_tolerance_sub
        (InvestorInput_default\<lparr>risk_attitude := Some 2, drawdown_reaction := Some ''buy_more''\<rparr>)
       = 135 / 2"
proof -
  let ?q = "InvestorInput_default\<lparr>risk_attitude := Some 2, drawdown_reaction := Some ''buy_more''\<rparr>"
  have h: "\<not> truthy_str (risk_tolerance InvestorInput_default)"
    "\<not> truthy_str (risk_tolerance ?q)"
    by (simp_all add: InvestorInput_default_def)
  have s: "supplied_components InvestorInput_default = []" "supplied_components ?q = [45, 90]"
    by (simp_all add: supplied_components_def supplied_likert_def supplied_drawdown_def
        InvestorInput_default_def get_or_60_def likert_def dd_map_def)
  show ?thesis
    using C7_risk_tolerance_fallback [of InvestorInput_default]
      C7_risk_tolerance_fallback [of ?q] h
    by (simp add: s arithmetic_mean_def)
qed

section \<open>The insurance factor from the flags\<close>

lemma insurance_sub_flags:
  "insurance_amount p = None \<Longrightarrow> insurance p = Some ins \<Longrightarrow>
   insurance_sub p = Some
     (if has_health ins = Some True \<and> has_life ins = Some True then 80
      else if has_health ins = Some True \<or> has_life ins = Some True then 50 else 30)"
  by (cases "has_health ins"; cases "has_life ins") (auto simp: insurance_sub_def)

lemma optional_factor_Some:
  "s \<noteq> 0 \<Longrightarrow> optional_factor n (Some s)
     = [\<lparr>name = n, subscore = s, weight = None, weighted = None\<rparr>]"
  by (simp add: optional_factor_def)

lemma filter_weighted_factors:
  "filter (\<lambda>f. name f = ''insurance'') (weighted_factors p) = []"
  by (simp add: weighted_factors_def)

lemma filter_dependants_factor:
  "filter (\<lambda>f. name f = ''insurance'') (optional_factor ''dependants'' sub) = []"
  using optional_factor_cases [of "''dependants''" sub] by auto

text \<open>
  Claim C10: for every request with no \<^verbatim>\<open>insurance_amount\<close> and an \<^verbatim>\<open>insurance\<close>
  record, the engine appends, right after the five weighted factors, one insurance factor
  with null weight and null weighted contribution, whose sub-score is 80 when both flags
  are true, 50 when exactly one is, and 30 when neither is; it is the only factor of that
  name.
\<close>

theorem C10_insurance_flags:
  "insurance_amount p = None \<Longrightarrow> insurance p = Some ins \<Longrightarrow>
   factors (classify_investor p) ! 5 =
     \<lparr>name = ''insurance'',
      subscore = (if has_health ins = Some True \<and> has_life ins = Some True then 80
                  else if has_health ins = Some True \<or> has_life ins = Some True then 50
                  else 30),
      weight = None, weighted = None\<rparr>
   \<and> filter (\<lambda>f. name f = ''insurance'') (factors (classify_investor p)) =
     [\<lparr>name = ''insurance'',
       subscore = (if has_health ins = Some True \<and> has_life ins = Some True then 80
                   else if has_health ins = Some True \<or> has_life ins = Some True then 50
                   else 30),
       weight = None, weighted = None\<rparr>]"
proof -
  assume a: "insurance_amount p = None" "insurance p = Some ins"
  let ?s = "if has_health ins = Some True \<and> has_life ins = Some True then 80
            else if has_health ins = Some True \<or> has_life ins = Some True then 50
            else (30::rat)"
  have nz: "?s \<noteq> 0" by simp
  have f: "factors (classify_investor p) =
      weighted_factors p @ [\<lparr>name = ''insurance'', subscore = ?s, weight = None, weighted = None\<rparr>]
        @ optional_factor ''dependants'' (get_dependants_score (dependants p))"
    by (simp only: classify_investor_def Result.simps insurance_sub_flags [OF a]
        optional_factor_Some [OF nz])
  have l: "length (weighted_factors p) = 5" by (simp add: weighted_factors_def)
  show ?thesis
    unfolding f by (simp add: nth_append l filter_weighted_factors filter_dependants_factor)
qed

text \<open>The example request with one flag, with both, and with none.\<close>

theorem C10_insurance_flags_witness:
  "insurance_amount (example_input\<lparr>insurance := Some \<lparr>has_health = Some True, has_life = Some False\<rparr>\<rparr>) = None
   \<and> factors (classify_investor
        (example_input\<lparr>insurance := Some \<lparr>has_health = Some True, has_life = Some False\<rparr>\<rparr>)) ! 5
       = \<lparr>name = ''insurance'', subscore = 50, weight = None, weighted = None\<rparr>
   \<and> factors (classify_investor
        (example_input\<lparr>insurance := Some \<lparr>has_health = Some True, has_life = Some True\<rparr>\<rparr>)) ! 5
       = \<lparr>name = ''insurance'', subscore = 80, weight = None, weighted = None\<rparr>
   \<and> factors (classify_investor
        (example_input\<lparr>insurance := Some \<lparr>has_health = Some False, has_life = None\<rparr>\<rparr>)) ! 5
       = \<lparr>name = ''insurance'', subscore = 30, weight = None, weighted = None\<rparr>"
proof -
  have a: "insurance_amount (example_input\<lparr>insurance := i\<rparr>) = None" for i
    by (simp add: example_input_def InvestorInput_default_def)
  have i: "insurance (example_input\<lparr>insurance := Some j\<rparr>) = Some j" for j
    by simp
  show ?thesis
    using C10_insurance_flags [OF a i, of "\<lparr>has_health = Some True, has_life = Some False\<rparr>"]
      C10_insurance_flags [OF a i, of "\<lparr>has_health = Some True, has_life = Some True\<rparr>"]
      C10_insurance_flags [OF a i, of "\<lparr>has_health = Some False, has_life = None\<rparr>"]
    by (simp add: a)
qed


section \<open>Weights and linearity\<close>











end
